theory Spec2Isabelle
  imports Main
begin

section \<open>Data model\<close>

text \<open>
  The records the user interface builds before dispatching:
  \<^verbatim>\<open>const author = { authorName, id: uuid() }\<close> (AuthorInput.js) and
  \<^verbatim>\<open>const book = { ...formData, id: uuid() }\<close> with \<^verbatim>\<open>formData = { title, authorName }\<close>
  (BookInput.js). Ids and names are JavaScript strings; \<^verbatim>\<open>===\<close> on two strings is
  equality of their contents, which is equality of \<^typ>\<open>string\<close> here. The field
  \<^verbatim>\<open>id\<close> is written \<open>id'\<close>.
\<close>

record author =
  authorName :: string
  id' :: string

record book =
  title :: string
  authorName :: string
  id' :: string

text \<open>
  An action is \<^verbatim>\<open>{ type, payload }\<close>. The reducers select their branch on the string
  \<^verbatim>\<open>action.type\<close>. The payload is one of the values the program passes around: a book,
  an author, an id, or nothing (\<^verbatim>\<open>undefined\<close>, as in the store's own actions).
\<close>

datatype payload =
    BookPayload book
  | AuthorPayload author
  | IdPayload string
  | NoPayload

record action =
  type :: string
  payload :: payload

text \<open>
  The reducers raise nothing by themselves. Two outcomes of the JavaScript cannot be a
  value of the typed collections and are made explicit:
  \<^item> \<open>TypeError\<close>: reading \<^verbatim>\<open>action.payload.authorName\<close> when the payload is
    \<^verbatim>\<open>undefined\<close> throws;
  \<^item> \<open>IllShaped\<close>: the JavaScript would store in the array a value that is not a record of
    the collection (a string, \<^verbatim>\<open>undefined\<close>, a record of the other kind, or an author
    whose name is \<^verbatim>\<open>undefined\<close>); the typed model stops there.
\<close>

datatype fault = TypeError | IllShaped

section \<open>Action creators\<close>

definition addAuthor :: "author \<Rightarrow> action" where
  "addAuthor author = \<lparr>type = ''authors/add'', payload = AuthorPayload author\<rparr>"

definition removeAuthor :: "string \<Rightarrow> action" where
  "removeAuthor i = \<lparr>type = ''authors/remove'', payload = IdPayload i\<rparr>"

definition addBook :: "book \<Rightarrow> action" where
  "addBook book = \<lparr>type = ''books/add'', payload = BookPayload book\<rparr>"

definition removeBook :: "string \<Rightarrow> action" where
  "removeBook i = \<lparr>type = ''books/remove'', payload = IdPayload i\<rparr>"

section \<open>Reducers\<close>

text \<open>
  \<^verbatim>\<open>x.id !== action.payload\<close>, where \<^verbatim>\<open>x.id\<close> is a string: strict inequality holds
  unless the payload is a string with the same contents.
\<close>

definition strictNotEqual :: "string \<Rightarrow> payload \<Rightarrow> bool" where
  "strictNotEqual s p = (case p of IdPayload i \<Rightarrow> s \<noteq> i | _ \<Rightarrow> True)"

text \<open>
  \<^verbatim>\<open>action.payload.authorName\<close>: a book and an author both have the field; a string has
  no such property (the value is \<^verbatim>\<open>undefined\<close>, which is no author name); on
  \<^verbatim>\<open>undefined\<close> the property access throws.
\<close>

definition payloadAuthorName :: "payload \<Rightarrow> fault + string" where
  "payloadAuthorName p =
     (case p of
        BookPayload b \<Rightarrow> Inr (book.authorName b)
      | AuthorPayload a \<Rightarrow> Inr (author.authorName a)
      | IdPayload _ \<Rightarrow> Inl IllShaped
      | NoPayload \<Rightarrow> Inl TypeError)"

subsection \<open>booksSlice.js\<close>

definition books_initialState :: "book list" where
  "books_initialState = []"

text \<open>
  \<^verbatim>\<open>function booksReducer(state = initialState, action)\<close>: the default value is taken
  when the argument is \<^verbatim>\<open>undefined\<close>, which is \<open>None\<close> here.
\<close>

definition booksReducer :: "book list option \<Rightarrow> action \<Rightarrow> fault + book list" where
  "booksReducer state0 action =
     (let state = (case state0 of None \<Rightarrow> books_initialState | Some s \<Rightarrow> s) in
      if type action = ''books/add'' then
        (case payload action of
           BookPayload b \<Rightarrow> Inr (state @ [b])
         | _ \<Rightarrow> Inl IllShaped)
      else if type action = ''books/remove'' then
        Inr (filter (\<lambda>book. strictNotEqual (book.id' book) (payload action)) state)
      else Inr state)"

subsection \<open>authorsSlice.js\<close>

definition authors_initialState :: "author list" where
  "authors_initialState = []"

text \<open>
  The id generator \<^verbatim>\<open>uuid\<close> is a library outside the repository. The reducer calls it at
  most once, in the branch that builds a new author; the parameter \<open>uuid\<close> is the string
  that call returns.
\<close>

definition authorsReducer :: "string \<Rightarrow> author list option \<Rightarrow> action \<Rightarrow> fault + author list" where
  "authorsReducer uuid state0 action =
     (let state = (case state0 of None \<Rightarrow> authors_initialState | Some s \<Rightarrow> s) in
      if type action = ''authors/add'' then
        (case payload action of
           AuthorPayload a \<Rightarrow> Inr (state @ [a])
         | _ \<Rightarrow> Inl IllShaped)
      else if type action = ''authors/remove'' then
        Inr (filter (\<lambda>author. strictNotEqual (author.id' author) (payload action)) state)
      else if type action = ''books/add'' then
        (case payloadAuthorName (payload action) of
           Inl e \<Rightarrow> Inl e
         | Inr name \<Rightarrow>
             (case find (\<lambda>author. author.authorName author = name) state of
                Some existingAuthor \<Rightarrow> Inr state
              | None \<Rightarrow> Inr (state @ [\<lparr>author.authorName = name, id' = uuid\<rparr>])))
      else Inr state)"

subsection \<open>reducer.js\<close>

text \<open>
  The composite state and the mapping handed to \<^verbatim>\<open>combineReducers\<close> have the same two
  keys, \<^verbatim>\<open>authors\<close> and \<^verbatim>\<open>books\<close>: one record type, with the type of each field as a
  parameter, serves for both.
\<close>

record ('a, 'b) slices =
  authors :: 'a
  books :: 'b

type_synonym rootState = "(author list, book list) slices"

text \<open>
  Modelled from the spec: the synthetic initialization event of section 4.1, which the
  store of the redux library hands to the combined transition function on its first
  invocation; the library is not in the repository. The spec gives the event no type
  label; the model takes one that no reducer handles, with no payload.
\<close>

definition initEvent :: action where
  "initEvent = \<lparr>type = ''@@redux/INIT'', payload = NoPayload\<rparr>"

text \<open>
  Modelled from the spec: \<^verbatim>\<open>combineReducers\<close> of the redux library, which is not in the
  repository (section 4.1, State Combinator; the README describes its result as
  \<^verbatim>\<open>function reducer(state = initialState, action)\<close>). Given one transition function for
  each field, it returns one transition function
  \<^verbatim>\<open>(compositeState | undefined, event) -> compositeState\<close>: all fields are processed for
  every event, each field's transition function being applied to the current value of
  that field and the incoming event, and the results are the fields of a new composite
  state. When the composite state is absent, the current value of every field is
  undefined, so that each transition function falls back on its declared initial value
  before it handles the event. The fields are processed in the order of the mapping; a
  fault of a transition function is the fault of the whole call.
\<close>

definition combineReducers ::
  "('a option \<Rightarrow> action \<Rightarrow> fault + 'a, 'b option \<Rightarrow> action \<Rightarrow> fault + 'b) slices \<Rightarrow>
   ('a, 'b) slices option \<Rightarrow> action \<Rightarrow> fault + ('a, 'b) slices" where
  "combineReducers reducers compositeState event =
     (let (a0, b0) =
            (case compositeState of
               None \<Rightarrow> (None, None)
             | Some s \<Rightarrow> (Some (authors s), Some (books s))) in
      case authors reducers a0 event of
        Inl err \<Rightarrow> Inl err
      | Inr a \<Rightarrow>
          (case books reducers b0 event of
             Inl err \<Rightarrow> Inl err
           | Inr b \<Rightarrow> Inr \<lparr>authors = a, books = b\<rparr>))"

text \<open>
  \<^verbatim>\<open>const rootReducer = combineReducers({ authors: authorsReducer, books: booksReducer })\<close>
\<close>

definition rootReducer :: "string \<Rightarrow> rootState option \<Rightarrow> action \<Rightarrow> fault + rootState" where
  "rootReducer uuid =
     combineReducers \<lparr>authors = authorsReducer uuid, books = booksReducer\<rparr>"

section \<open>Removal of the first match, in the words of the specification\<close>

text \<open>
  The specification describes removal as taking out the first record that matches; the
  code filters. This function is the specification's description, to compare with the
  reducers.
\<close>

fun removeFirstMatch :: "('a \<Rightarrow> bool) \<Rightarrow> 'a list \<Rightarrow> 'a list" where
  "removeFirstMatch P [] = []"
| "removeFirstMatch P (x # xs) = (if P x then xs else x # removeFirstMatch P xs)"

section \<open>Events of the shape the action creators give them\<close>

text \<open>
  The payload an \<^verbatim>\<open>"authors/add"\<close> event carries is an author and the payload a
  \<^verbatim>\<open>"books/add"\<close> event carries is a book, as \<open>addAuthor\<close> and \<open>addBook\<close> are called by
  the forms. Every other event is accepted with any payload.
\<close>

definition wellShaped :: "action \<Rightarrow> bool" where
  "wellShaped action =
     (if type action = ''authors/add'' then
        (case payload action of AuthorPayload _ \<Rightarrow> True | _ \<Rightarrow> False)
      else if type action = ''books/add'' then
        (case payload action of BookPayload _ \<Rightarrow> True | _ \<Rightarrow> False)
      else True)"

section \<open>Sample records\<close>

text \<open>Concrete authors and books, on which the theorems below are instantiated.\<close>

definition twain :: author where
  "twain = \<lparr>author.authorName = ''Mark Twain'', id' = ''a1''\<rparr>"

definition huck :: book where
  "huck = \<lparr>title = ''Huckleberry Finn'', book.authorName = ''Mark Twain'', id' = ''b1''\<rparr>"

definition snow :: book where
  "snow = \<lparr>title = ''Snow Crash'', book.authorName = ''Neal Stephenson'', id' = ''b2''\<rparr>"

definition lower :: author where
  "lower = \<lparr>author.authorName = ''mark twain'', id' = ''a2''\<rparr>"

section \<open>The reducers on each kind of event\<close>

lemma booksReducer_addBook:
  "booksReducer (Some state) (addBook b) = Inr (state @ [b])"
  by (simp add: booksReducer_def addBook_def)

lemma booksReducer_removeBook:
  "booksReducer (Some state) (removeBook i) = Inr (filter (\<lambda>b. book.id' b \<noteq> i) state)"
  by (simp add: booksReducer_def removeBook_def strictNotEqual_def)

lemma booksReducer_addAuthor:
  "booksReducer (Some state) (addAuthor a) = Inr state"
  by (simp add: booksReducer_def addAuthor_def)

lemma booksReducer_default:
  "type action \<noteq> ''books/add'' \<Longrightarrow> type action \<noteq> ''books/remove'' \<Longrightarrow>
   booksReducer (Some state) action = Inr state"
  by (simp add: booksReducer_def)

lemma authorsReducer_addAuthor:
  "authorsReducer uuid (Some state) (addAuthor a) = Inr (state @ [a])"
  by (simp add: authorsReducer_def addAuthor_def)

lemma authorsReducer_removeAuthor:
  "authorsReducer uuid (Some state) (removeAuthor i) =
     Inr (filter (\<lambda>a. author.id' a \<noteq> i) state)"
  by (simp add: authorsReducer_def removeAuthor_def strictNotEqual_def)

lemma authorsReducer_addBook:
  "authorsReducer uuid (Some state) (addBook b) =
     (if \<exists>a \<in> set state. author.authorName a = book.authorName b then Inr state
      else Inr (state @ [\<lparr>author.authorName = book.authorName b, id' = uuid\<rparr>]))"
proof (cases "find (\<lambda>a. author.authorName a = book.authorName b) state")
  case None
  then have "\<forall>a \<in> set state. author.authorName a \<noteq> book.authorName b"
    by (simp add: find_None_iff)
  with None show ?thesis
    by (simp add: authorsReducer_def addBook_def payloadAuthorName_def)
next
  case (Some x)
  then have "\<exists>a \<in> set state. author.authorName a = book.authorName b"
    by (auto simp: find_Some_iff)
  with Some show ?thesis
    by (simp add: authorsReducer_def addBook_def payloadAuthorName_def)
qed

lemma authorsReducer_default:
  "type action \<noteq> ''authors/add'' \<Longrightarrow> type action \<noteq> ''authors/remove'' \<Longrightarrow>
   type action \<noteq> ''books/add'' \<Longrightarrow> authorsReducer uuid (Some state) action = Inr state"
  by (simp add: authorsReducer_def)

lemma rootReducer_Some:
  "rootReducer uuid (Some S) event =
     (case authorsReducer uuid (Some (authors S)) event of
        Inl err \<Rightarrow> Inl err
      | Inr a \<Rightarrow>
          (case booksReducer (Some (books S)) event of
             Inl err \<Rightarrow> Inl err
           | Inr b \<Rightarrow> Inr \<lparr>authors = a, books = b\<rparr>))"
  by (simp add: rootReducer_def combineReducers_def split: sum.splits)

lemma rootReducer_None:
  "rootReducer uuid None event =
     (case authorsReducer uuid None event of
        Inl err \<Rightarrow> Inl err
      | Inr a \<Rightarrow>
          (case booksReducer None event of
             Inl err \<Rightarrow> Inl err
           | Inr b \<Rightarrow> Inr \<lparr>authors = a, books = b\<rparr>))"
  by (simp add: rootReducer_def combineReducers_def split: sum.splits)

lemma authorsReducer_undefined:
  "authorsReducer uuid None event = Inr [] \<longleftrightarrow>
     type event \<noteq> ''authors/add'' \<and> type event \<noteq> ''books/add''"
  by (auto simp: authorsReducer_def authors_initialState_def payloadAuthorName_def
           split: payload.splits)

lemma booksReducer_undefined:
  "booksReducer None event = Inr [] \<longleftrightarrow> type event \<noteq> ''books/add''"
  by (auto simp: booksReducer_def books_initialState_def split: payload.splits)

lemma filter_removeFirstMatch:
  "distinct (map f xs) \<Longrightarrow> filter (\<lambda>x. f x \<noteq> i) xs = removeFirstMatch (\<lambda>x. f x = i) xs"
proof (induction xs)
  case Nil
  then show ?case by simp
next
  case (Cons x xs)
  show ?case
  proof (cases "f x = i")
    case True
    with Cons.prems have "\<forall>y \<in> set xs. f y \<noteq> i" by (auto simp: image_iff)
    then have "filter (\<lambda>x. f x \<noteq> i) xs = xs" by simp
    with True show ?thesis by simp
  next
    case False
    with Cons show ?thesis by simp
  qed
qed

lemma filter_absent: "i \<notin> f ` set xs \<Longrightarrow> filter (\<lambda>x. f x \<noteq> i) xs = xs"
  by (induction xs) auto

lemma removeFirstMatch_length:
  "\<exists>x \<in> set xs. P x \<Longrightarrow> Suc (length (removeFirstMatch P xs)) = length xs"
  by (induction xs) auto

lemma length_filter_split:
  "length (filter (\<lambda>x. \<not> P x) xs) + length (filter P xs) = length xs"
  by (induction xs) auto

lemma booksReducer_undefined_addBook:
  "booksReducer None (addBook b) = Inr [b]"
  by (simp add: booksReducer_def addBook_def books_initialState_def)

lemma authorsReducer_returns:
  "wellShaped action \<Longrightarrow> \<exists>a. authorsReducer uuid (Some state) action = Inr a"
  by (auto simp: authorsReducer_def wellShaped_def payloadAuthorName_def Let_def
           split: if_splits payload.splits option.splits)

lemma booksReducer_returns:
  "wellShaped action \<Longrightarrow> \<exists>b. booksReducer (Some state) action = Inr b"
  by (auto simp: booksReducer_def wellShaped_def split: if_splits payload.splits)

lemma removeFirstMatch_absent:
  "i \<notin> f ` set xs \<Longrightarrow> removeFirstMatch (\<lambda>x. f x = i) xs = xs"
  by (induction xs) auto

lemma filter_not_removeFirstMatch:
  assumes "2 \<le> length (filter (\<lambda>x. f x = i) xs)"
  shows "filter (\<lambda>x. f x \<noteq> i) xs \<noteq> removeFirstMatch (\<lambda>x. f x = i) xs"
proof
  assume eq: "filter (\<lambda>x. f x \<noteq> i) xs = removeFirstMatch (\<lambda>x. f x = i) xs"
  from assms have "filter (\<lambda>x. f x = i) xs \<noteq> []" by auto
  then have "\<exists>x \<in> set xs. f x = i" by (simp add: filter_empty_conv)
  then have "Suc (length (removeFirstMatch (\<lambda>x. f x = i) xs)) = length xs"
    by (rule removeFirstMatch_length)
  moreover have "length (filter (\<lambda>x. f x \<noteq> i) xs) + length (filter (\<lambda>x. f x = i) xs) = length xs"
    using length_filter_split [of "\<lambda>x. f x = i" xs] by simp
  ultimately show False using assms eq by simp
qed

section \<open>The claims of the specification\<close>

text \<open>
  C1 (State Combinator, modelled from the spec). For every composite state and every
  event, the combined transition function returns the composite state \<open>S'\<close> exactly when the
  \<^verbatim>\<open>authors\<close> field of \<open>S'\<close> is what \<open>authorsReducer\<close> returns on the prior \<^verbatim>\<open>authors\<close> field
  and the event, and the \<^verbatim>\<open>books\<close> field of \<open>S'\<close> is what \<open>booksReducer\<close> returns on the prior
  \<^verbatim>\<open>books\<close> field and the event. The result has the two fields of the mapping and no other:
  that is its type. For every event of the shape the action creators give, a composite state
  is returned.
\<close>

theorem rootReducer_fieldwise:
  "(rootReducer uuid (Some S) event = Inr S' \<longleftrightarrow>
      authorsReducer uuid (Some (authors S)) event = Inr (authors S') \<and>
      booksReducer (Some (books S)) event = Inr (books S')) \<and>
   (wellShaped event \<longrightarrow> (\<exists>T. rootReducer uuid (Some S) event = Inr T))"
proof
  show "rootReducer uuid (Some S) event = Inr S' \<longleftrightarrow>
      authorsReducer uuid (Some (authors S)) event = Inr (authors S') \<and>
      booksReducer (Some (books S)) event = Inr (books S')"
    by (cases S') (auto simp: rootReducer_Some split: sum.splits)
next
  show "wellShaped event \<longrightarrow> (\<exists>T. rootReducer uuid (Some S) event = Inr T)"
  proof
    assume w: "wellShaped event"
    obtain a where a: "authorsReducer uuid (Some (authors S)) event = Inr a"
      using authorsReducer_returns [OF w] by blast
    obtain b where b: "booksReducer (Some (books S)) event = Inr b"
      using booksReducer_returns [OF w] by blast
    show "\<exists>T. rootReducer uuid (Some S) event = Inr T"
      by (simp add: rootReducer_Some a b)
  qed
qed

theorem rootReducer_fieldwise_witness:
  "wellShaped (addBook snow) \<and>
   rootReducer ''u1'' (Some \<lparr>authors = [twain], books = [huck]\<rparr>) (addBook snow) =
     Inr \<lparr>authors = [twain, \<lparr>author.authorName = ''Neal Stephenson'', id' = ''u1''\<rparr>],
          books = [huck, snow]\<rparr>"
  using rootReducer_fieldwise [of "''u1''" "\<lparr>authors = [twain], books = [huck]\<rparr>" "addBook snow"
      "\<lparr>authors = [twain, \<lparr>author.authorName = ''Neal Stephenson'', id' = ''u1''\<rparr>],
          books = [huck, snow]\<rparr>"]
  by (simp add: wellShaped_def addBook_def authorsReducer_def booksReducer_def
      payloadAuthorName_def twain_def snow_def huck_def)

text \<open>
  C2, as stated: for every event, the combined transition function on an undefined
  composite state returns \<^verbatim>\<open>{ books: [], authors: [] }\<close>. This fails on a
  \<^verbatim>\<open>"books/add"\<close> event: both reducers start from their empty initial value and then
  handle the event, so the book and its author are in the result.
\<close>

theorem rootReducer_undefined_state_counterexample:
  "rootReducer ''u1'' None (addBook snow) =
     Inr \<lparr>authors = [\<lparr>author.authorName = ''Neal Stephenson'', id' = ''u1''\<rparr>],
          books = [snow]\<rparr> \<and>
   rootReducer ''u1'' None (addBook snow) \<noteq> Inr \<lparr>authors = [], books = []\<rparr>"
  by (simp add: rootReducer_None authorsReducer_def booksReducer_def addBook_def
      payloadAuthorName_def authors_initialState_def books_initialState_def snow_def)

text \<open>
  C2, amended (State Combinator, modelled from the spec). The combined transition
  function on an undefined composite state returns \<^verbatim>\<open>{ books: [], authors: [] }\<close>
  exactly for the events whose type is neither \<^verbatim>\<open>"books/add"\<close> nor \<^verbatim>\<open>"authors/add"\<close>:
  the initialization event, the two removals and every unrelated event. There both
  collections are their declared initial value, the empty list, which each reducer
  returns on an undefined state and the initialization event.
\<close>

theorem rootReducer_undefined_unhandled:
  "(rootReducer uuid None event = Inr \<lparr>authors = [], books = []\<rparr> \<longleftrightarrow>
      type event \<noteq> ''books/add'' \<and> type event \<noteq> ''authors/add'') \<and>
   rootReducer uuid None initEvent = Inr \<lparr>authors = [], books = []\<rparr> \<and>
   authorsReducer uuid None initEvent = Inr authors_initialState \<and>
   booksReducer None initEvent = Inr books_initialState \<and>
   authors_initialState = [] \<and> books_initialState = []"
proof -
  have "rootReducer uuid None event = Inr \<lparr>authors = [], books = []\<rparr> \<longleftrightarrow>
      authorsReducer uuid None event = Inr [] \<and> booksReducer None event = Inr []"
    by (auto simp: rootReducer_None split: sum.splits)
  then have general: "rootReducer uuid None event = Inr \<lparr>authors = [], books = []\<rparr> \<longleftrightarrow>
      type event \<noteq> ''books/add'' \<and> type event \<noteq> ''authors/add''"
    by (auto simp: authorsReducer_undefined booksReducer_undefined)
  have init: "rootReducer uuid None initEvent = Inr \<lparr>authors = [], books = []\<rparr> \<and>
      authorsReducer uuid None initEvent = Inr authors_initialState \<and>
      booksReducer None initEvent = Inr books_initialState \<and>
      authors_initialState = [] \<and> books_initialState = []"
    by (simp add: rootReducer_None authorsReducer_def booksReducer_def initEvent_def
        authors_initialState_def books_initialState_def)
  from general init show ?thesis by blast
qed

theorem rootReducer_undefined_unhandled_witness:
  "type (removeBook ''b1'') \<noteq> ''books/add'' \<and> type (removeBook ''b1'') \<noteq> ''authors/add'' \<and>
   rootReducer ''u1'' None (removeBook ''b1'') = Inr \<lparr>authors = [], books = []\<rparr> \<and>
   rootReducer ''u1'' None initEvent = Inr \<lparr>authors = [], books = []\<rparr>"
  using rootReducer_undefined_unhandled [of "''u1''" "removeBook ''b1''"]
  by (simp add: removeBook_def)

text \<open>
  C3. When the authors collection already holds an author whose name equals the
  \<^verbatim>\<open>authorName\<close> of the payload of an \<^verbatim>\<open>"books/add"\<close> event, \<open>authorsReducer\<close> returns the
  collection unchanged. In particular, from a collection with no author named
  \<^verbatim>\<open>"Mark Twain"\<close>, adding an author of that name and then a book with that author name
  gives a collection with exactly one entry of that name.
\<close>

theorem addBook_existing_author:
  "((\<exists>a \<in> set state. author.authorName a = book.authorName b) \<longrightarrow>
      authorsReducer uuid (Some state) (addBook b) = Inr state) \<and>
   ((\<forall>a \<in> set state. author.authorName a \<noteq> ''Mark Twain'') \<and>
    author.authorName mt = ''Mark Twain'' \<and> book.authorName bk = ''Mark Twain'' \<longrightarrow>
      authorsReducer u1 (Some state) (addAuthor mt) = Inr (state @ [mt]) \<and>
      authorsReducer u2 (Some (state @ [mt])) (addBook bk) = Inr (state @ [mt]) \<and>
      length (filter (\<lambda>a. author.authorName a = ''Mark Twain'') (state @ [mt])) = 1)"
proof (rule conjI)
  show "(\<exists>a \<in> set state. author.authorName a = book.authorName b) \<longrightarrow>
      authorsReducer uuid (Some state) (addBook b) = Inr state"
    by (simp add: authorsReducer_addBook)
next
  show "(\<forall>a \<in> set state. author.authorName a \<noteq> ''Mark Twain'') \<and>
    author.authorName mt = ''Mark Twain'' \<and> book.authorName bk = ''Mark Twain'' \<longrightarrow>
      authorsReducer u1 (Some state) (addAuthor mt) = Inr (state @ [mt]) \<and>
      authorsReducer u2 (Some (state @ [mt])) (addBook bk) = Inr (state @ [mt]) \<and>
      length (filter (\<lambda>a. author.authorName a = ''Mark Twain'') (state @ [mt])) = 1"
  proof (rule impI)
    assume h: "(\<forall>a \<in> set state. author.authorName a \<noteq> ''Mark Twain'') \<and>
      author.authorName mt = ''Mark Twain'' \<and> book.authorName bk = ''Mark Twain''"
    then have none: "filter (\<lambda>a. author.authorName a = ''Mark Twain'') state = []"
      by (simp add: filter_empty_conv)
    have step2: "authorsReducer u2 (Some (state @ [mt])) (addBook bk) = Inr (state @ [mt])"
      using h by (simp add: authorsReducer_addBook)
    have one: "length (filter (\<lambda>a. author.authorName a = ''Mark Twain'') (state @ [mt])) = 1"
      using h none by simp
    show "authorsReducer u1 (Some state) (addAuthor mt) = Inr (state @ [mt]) \<and>
      authorsReducer u2 (Some (state @ [mt])) (addBook bk) = Inr (state @ [mt]) \<and>
      length (filter (\<lambda>a. author.authorName a = ''Mark Twain'') (state @ [mt])) = 1"
      using step2 one by (simp add: authorsReducer_addAuthor)
  qed
qed

theorem addBook_existing_author_witness:
  "(\<exists>a \<in> set [lower, twain]. author.authorName a = book.authorName huck) \<and>
   authorsReducer ''u1'' (Some [lower, twain]) (addBook huck) = Inr [lower, twain] \<and>
   author.authorName lower \<noteq> ''Mark Twain'' \<and>
   author.authorName twain = ''Mark Twain'' \<and> book.authorName huck = ''Mark Twain'' \<and>
   authorsReducer ''u1'' (Some [lower]) (addAuthor twain) = Inr [lower, twain] \<and>
   authorsReducer ''u2'' (Some [lower, twain]) (addBook huck) = Inr [lower, twain] \<and>
   length (filter (\<lambda>a. author.authorName a = ''Mark Twain'') [lower, twain]) = 1"
  using addBook_existing_author [of "[lower, twain]" huck "''u1''" twain huck "''u1''" "''u2''"]
    addBook_existing_author [of "[lower]" huck "''u1''" twain huck "''u1''" "''u2''"]
  by (simp add: lower_def twain_def huck_def)

text \<open>
  C4. When no author of the collection has the name of the payload of an
  \<^verbatim>\<open>"books/add"\<close> event, \<open>authorsReducer\<close> returns the collection with exactly one record
  appended: its name is the payload's \<^verbatim>\<open>authorName\<close> and its id is the one the generator
  returned. The entries that were there are kept, in order. When the generated id is not
  the id of an existing author, it differs from all existing ids, and ids that were
  distinct stay distinct.
\<close>

theorem addBook_new_author:
  "\<forall>a \<in> set state. author.authorName a \<noteq> book.authorName b \<Longrightarrow>
   \<exists>r new. authorsReducer uuid (Some state) (addBook b) = Inr r \<and>
     r = state @ [new] \<and>
     author.authorName new = book.authorName b \<and> author.id' new = uuid \<and>
     length r = length state + 1 \<and> take (length state) r = state \<and>
     (uuid \<notin> author.id' ` set state \<longrightarrow>
        (\<forall>a \<in> set state. author.id' a \<noteq> author.id' new) \<and>
        (distinct (map author.id' state) \<longrightarrow> distinct (map author.id' r)))"
  by (auto simp: authorsReducer_addBook)

theorem addBook_new_author_witness:
  "author.authorName twain \<noteq> book.authorName snow \<and>
   ''u1'' \<notin> author.id' ` set [twain] \<and> distinct (map author.id' [twain]) \<and>
   authorsReducer ''u1'' (Some [twain]) (addBook snow) =
     Inr [twain, \<lparr>author.authorName = ''Neal Stephenson'', id' = ''u1''\<rparr>]"
  using addBook_new_author [of "[twain]" snow "''u1''"]
  by (auto simp: twain_def snow_def)

text \<open>
  C5. On a books collection whose ids are unique, \<^verbatim>\<open>"books/remove"\<close> with the id
  \<open>i\<close> returns the collection without the first record whose id is \<open>i\<close>, and returns the
  collection itself when no record has that id. The same holds for \<open>authorsReducer\<close> and
  \<^verbatim>\<open>"authors/remove"\<close>.
\<close>

theorem remove_by_id_unique:
  "(distinct (map book.id' bs) \<longrightarrow>
      booksReducer (Some bs) (removeBook i) =
        Inr (removeFirstMatch (\<lambda>b. book.id' b = i) bs) \<and>
      (i \<notin> book.id' ` set bs \<longrightarrow> booksReducer (Some bs) (removeBook i) = Inr bs)) \<and>
   (distinct (map author.id' auths) \<longrightarrow>
      authorsReducer uuid (Some auths) (removeAuthor j) =
        Inr (removeFirstMatch (\<lambda>a. author.id' a = j) auths) \<and>
      (j \<notin> author.id' ` set auths \<longrightarrow>
         authorsReducer uuid (Some auths) (removeAuthor j) = Inr auths))"
  by (simp add: booksReducer_removeBook authorsReducer_removeAuthor
      filter_removeFirstMatch removeFirstMatch_absent)

theorem remove_by_id_unique_witness:
  "distinct (map book.id' [huck, snow]) \<and>
   booksReducer (Some [huck, snow]) (removeBook ''b1'') = Inr [snow] \<and>
   distinct (map author.id' [lower, twain]) \<and> ''zz'' \<notin> author.id' ` set [lower, twain] \<and>
   authorsReducer ''u1'' (Some [lower, twain]) (removeAuthor ''zz'') = Inr [lower, twain]"
  using remove_by_id_unique [of "[huck, snow]" "''b1''" "[lower, twain]" "''u1''" "''zz''"]
  by (simp add: huck_def snow_def lower_def twain_def)

text \<open>
  C6. When the id of the book \<open>B\<close> does not occur in the collection \<open>C\<close>, adding
  \<open>B\<close> and then removing the id of \<open>B\<close> gives \<open>C\<close> again.
\<close>

theorem add_then_remove_book:
  "book.id' B \<notin> book.id' ` set C \<Longrightarrow>
   booksReducer (Some C) (addBook B) = Inr (C @ [B]) \<and>
   booksReducer (Some (C @ [B])) (removeBook (book.id' B)) = Inr C"
  by (simp add: booksReducer_addBook booksReducer_removeBook filter_absent)

theorem add_then_remove_book_witness:
  "book.id' snow \<notin> book.id' ` set [huck] \<and>
   booksReducer (Some [huck]) (addBook snow) = Inr [huck, snow] \<and>
   booksReducer (Some [huck, snow]) (removeBook ''b2'') = Inr [huck]"
  using add_then_remove_book [of snow "[huck]"]
  by (simp add: huck_def snow_def)

text \<open>
  C7. Through the combined transition function, an \<^verbatim>\<open>"authors/add"\<close> event leaves the
  \<^verbatim>\<open>books\<close> field as it was, and a \<^verbatim>\<open>"books/add"\<close> event leaves every entry of the
  \<^verbatim>\<open>authors\<close> field in place: the new field is the old one, or the old one with one entry
  appended. The two reducers have the same property on their own.
\<close>

theorem field_isolation:
  "(\<exists>S'. rootReducer uuid (Some S) (addAuthor a) = Inr S' \<and> books S' = books S) \<and>
   (\<exists>S'. rootReducer uuid (Some S) (addBook b) = Inr S' \<and>
         take (length (authors S)) (authors S') = authors S \<and>
         (authors S' = authors S \<or> (\<exists>new. authors S' = authors S @ [new]))) \<and>
   booksReducer (Some bs) (addAuthor a) = Inr bs \<and>
   (\<exists>r. authorsReducer uuid (Some auths) (addBook b) = Inr r \<and>
        take (length auths) r = auths \<and> (r = auths \<or> (\<exists>new. r = auths @ [new])))"
  by (simp add: rootReducer_Some authorsReducer_addAuthor booksReducer_addAuthor
      authorsReducer_addBook booksReducer_addBook)

theorem field_isolation_witness:
  "(\<exists>S'. rootReducer ''u1'' (Some \<lparr>authors = [lower], books = [huck]\<rparr>) (addAuthor twain) = Inr S' \<and>
         books S' = [huck]) \<and>
   (\<exists>S'. rootReducer ''u1'' (Some \<lparr>authors = [lower], books = [huck]\<rparr>) (addBook huck) = Inr S' \<and>
         take 1 (authors S') = [lower])"
  using field_isolation [of "''u1''" "\<lparr>authors = [lower], books = [huck]\<rparr>" twain huck "[]" "[]"]
  by auto

text \<open>
  C8. For an event whose type is none of \<^verbatim>\<open>"books/add"\<close>, \<^verbatim>\<open>"books/remove"\<close>,
  \<^verbatim>\<open>"authors/add"\<close>, \<^verbatim>\<open>"authors/remove"\<close>, the combined transition function returns the
  composite state it was given, and so does each reducer on its own collection: the result
  is a state, not a fault, whatever the payload.
\<close>

theorem unrelated_event_noop:
  "type event \<noteq> ''books/add'' \<Longrightarrow> type event \<noteq> ''books/remove'' \<Longrightarrow>
   type event \<noteq> ''authors/add'' \<Longrightarrow> type event \<noteq> ''authors/remove'' \<Longrightarrow>
   rootReducer uuid (Some S) event = Inr S \<and>
   authorsReducer uuid (Some as) event = Inr as \<and>
   booksReducer (Some bs) event = Inr bs"
  by (simp add: rootReducer_Some authorsReducer_default booksReducer_default)

theorem unrelated_event_noop_witness:
  "type \<lparr>type = ''todos/add'', payload = NoPayload\<rparr> \<noteq> ''books/add'' \<and>
   type \<lparr>type = ''todos/add'', payload = NoPayload\<rparr> \<noteq> ''books/remove'' \<and>
   type \<lparr>type = ''todos/add'', payload = NoPayload\<rparr> \<noteq> ''authors/add'' \<and>
   type \<lparr>type = ''todos/add'', payload = NoPayload\<rparr> \<noteq> ''authors/remove'' \<and>
   rootReducer ''u1'' (Some \<lparr>authors = [twain], books = [huck]\<rparr>)
     \<lparr>type = ''todos/add'', payload = NoPayload\<rparr> = Inr \<lparr>authors = [twain], books = [huck]\<rparr>"
  using unrelated_event_noop [of "\<lparr>type = ''todos/add'', payload = NoPayload\<rparr>" "''u1''"
      "\<lparr>authors = [twain], books = [huck]\<rparr>" "[]" "[]"]
  by simp

text \<open>
  C9. When two or more records of the books collection have the id \<open>i\<close>,
  \<^verbatim>\<open>"books/remove"\<close> with \<open>i\<close> removes every one of them: no record of the result has the id
  \<open>i\<close>, the other records are kept in order, and the result is not the collection with
  only the first such record removed. The same holds for \<open>authorsReducer\<close> and
  \<^verbatim>\<open>"authors/remove"\<close>.
\<close>

theorem remove_by_id_duplicates:
  "(2 \<le> length (filter (\<lambda>b. book.id' b = i) bs) \<longrightarrow>
      (\<exists>r. booksReducer (Some bs) (removeBook i) = Inr r \<and>
           i \<notin> book.id' ` set r \<and>
           r = filter (\<lambda>b. book.id' b \<noteq> i) bs \<and>
           length r + length (filter (\<lambda>b. book.id' b = i) bs) = length bs \<and>
           r \<noteq> removeFirstMatch (\<lambda>b. book.id' b = i) bs)) \<and>
   (2 \<le> length (filter (\<lambda>a. author.id' a = j) auths) \<longrightarrow>
      (\<exists>r. authorsReducer uuid (Some auths) (removeAuthor j) = Inr r \<and>
           j \<notin> author.id' ` set r \<and>
           r = filter (\<lambda>a. author.id' a \<noteq> j) auths \<and>
           length r + length (filter (\<lambda>a. author.id' a = j) auths) = length auths \<and>
           r \<noteq> removeFirstMatch (\<lambda>a. author.id' a = j) auths))"
proof (rule conjI)
  show "2 \<le> length (filter (\<lambda>b. book.id' b = i) bs) \<longrightarrow>
      (\<exists>r. booksReducer (Some bs) (removeBook i) = Inr r \<and>
           i \<notin> book.id' ` set r \<and>
           r = filter (\<lambda>b. book.id' b \<noteq> i) bs \<and>
           length r + length (filter (\<lambda>b. book.id' b = i) bs) = length bs \<and>
           r \<noteq> removeFirstMatch (\<lambda>b. book.id' b = i) bs)"
    using length_filter_split [of "\<lambda>b. book.id' b = i" bs]
    by (auto simp: booksReducer_removeBook filter_not_removeFirstMatch)
next
  show "2 \<le> length (filter (\<lambda>a. author.id' a = j) auths) \<longrightarrow>
      (\<exists>r. authorsReducer uuid (Some auths) (removeAuthor j) = Inr r \<and>
           j \<notin> author.id' ` set r \<and>
           r = filter (\<lambda>a. author.id' a \<noteq> j) auths \<and>
           length r + length (filter (\<lambda>a. author.id' a = j) auths) = length auths \<and>
           r \<noteq> removeFirstMatch (\<lambda>a. author.id' a = j) auths)"
    using length_filter_split [of "\<lambda>a. author.id' a = j" auths]
    by (auto simp: authorsReducer_removeAuthor filter_not_removeFirstMatch)
qed

theorem remove_by_id_duplicates_witness:
  "2 \<le> length (filter (\<lambda>b. book.id' b = ''b1'') [huck, snow, huck]) \<and>
   booksReducer (Some [huck, snow, huck]) (removeBook ''b1'') = Inr [snow] \<and>
   removeFirstMatch (\<lambda>b. book.id' b = ''b1'') [huck, snow, huck] = [snow, huck] \<and>
   2 \<le> length (filter (\<lambda>a. author.id' a = ''a1'') [twain, twain]) \<and>
   authorsReducer ''u1'' (Some [twain, twain]) (removeAuthor ''a1'') = Inr []"
  using remove_by_id_duplicates [of "''b1''" "[huck, snow, huck]" "''a1''" "[twain, twain]" "''u1''"]
  by (simp add: huck_def snow_def twain_def)

text \<open>
  C10. The lookup of an existing author on \<^verbatim>\<open>"books/add"\<close> is exact equality of the
  names: \<open>authorsReducer\<close> returns the collection unchanged exactly when some author has the
  very name of the payload. With an author named \<^verbatim>\<open>"mark twain"\<close> and none named
  \<^verbatim>\<open>"Mark Twain"\<close>, a book by \<^verbatim>\<open>"Mark Twain"\<close> appends a second author.
\<close>

theorem author_lookup_exact:
  "(authorsReducer uuid (Some st) (addBook bk) = Inr st \<longleftrightarrow>
      (\<exists>a \<in> set st. author.authorName a = book.authorName bk)) \<and>
   ((\<exists>a \<in> set state. author.authorName a = ''mark twain'') \<and>
    (\<forall>a \<in> set state. author.authorName a \<noteq> ''Mark Twain'') \<and>
    book.authorName b = ''Mark Twain'' \<longrightarrow>
      authorsReducer uuid (Some state) (addBook b) =
        Inr (state @ [\<lparr>author.authorName = ''Mark Twain'', id' = uuid\<rparr>]) \<and>
      authorsReducer uuid (Some state) (addBook b) \<noteq> Inr state)"
  by (auto simp: authorsReducer_addBook)

theorem author_lookup_exact_witness:
  "(\<exists>a \<in> set [lower]. author.authorName a = ''mark twain'') \<and>
   author.authorName lower \<noteq> ''Mark Twain'' \<and>
   book.authorName huck = ''Mark Twain'' \<and>
   authorsReducer ''u1'' (Some [lower]) (addBook huck) =
     Inr [lower, \<lparr>author.authorName = ''Mark Twain'', id' = ''u1''\<rparr>]"
  using author_lookup_exact [of "''u1''" "[lower]" huck "[lower]" huck]
  by (simp add: lower_def huck_def)

end
